theory Spec2Isabelle
  imports Complex_Main
begin

section \<open>JavaScript values\<close>

text \<open>
  The server code is Google Apps Script. The values it handles are JavaScript values:
  what the client sends in a record (\<open>undefined\<close>, \<open>null\<close>, booleans, numbers, strings) and
  what \<open>getValues()\<close> returns for a cell (the empty string for an empty cell, a string,
  a number, a boolean or a \<open>Date\<close>). A number is \<open>NaN\<close>, an infinity, or a finite double,
  written as the real it denotes. A \<open>Date\<close> carries its time value, in milliseconds since
  the epoch.
\<close>

datatype jsnum = NaN | NegInf | Fin real | PosInf

datatype jsval = JUndefined | JNull | JBool bool | JNum jsnum | JStr string | JDate int

definition blank :: jsval where
  "blank = JStr []"

text \<open>\<open>!v\<close> is \<open>\<not> truthy v\<close>.\<close>

fun truthy :: "jsval \<Rightarrow> bool" where
  "truthy JUndefined = False"
| "truthy JNull = False"
| "truthy (JBool b) = b"
| "truthy (JNum n) = (n \<noteq> NaN \<and> n \<noteq> Fin 0)"
| "truthy (JStr s) = (s \<noteq> [])"
| "truthy (JDate t) = True"

text \<open>\<open>n <= 0\<close> and \<open>isNaN(n)\<close> on numbers: every comparison with \<open>NaN\<close> is false.\<close>

fun numLeZero :: "jsnum \<Rightarrow> bool" where
  "numLeZero NaN = False"
| "numLeZero NegInf = True"
| "numLeZero (Fin r) = (r \<le> 0)"
| "numLeZero PosInf = False"

fun isNaN :: "jsnum \<Rightarrow> bool" where
  "isNaN NaN = True"
| "isNaN n = False"

text \<open>
  What the host (the JavaScript engine, the Apps Script services and the script's
  properties) computes is taken as a parameter: the conversions between strings and
  numbers and between dates and strings, the base64 codec of \<open>Utilities\<close>, the secret
  \<open>ENCRYPTION_KEY\<close> of the script properties, and \<open>generateAssetId\<close>, which
  \<open>zNetWorth.js\<close> calls and no file of the sources defines. \<open>createDateOnly\<close>
  (\<open>zTransactions.js\<close>, line 9) and \<open>createMonthYearOnly\<close> (\<open>zNetWorth.js\<close>, line 11) only
  build a host \<open>Date\<close> from their argument, or from the clock when the argument is no date,
  and print it; they are taken as functions of the argument and of the clock.
  Every theorem below holds for every host.
\<close>

record platform =
  strToNumber :: "string \<Rightarrow> jsnum"
  strParseFloat :: "string \<Rightarrow> jsnum"
  numToString :: "jsnum \<Rightarrow> string"
  dateToString :: "int \<Rightarrow> string"
  dateParse :: "string \<Rightarrow> int option"
  toISOString :: "int \<Rightarrow> string"
  createDateOnly :: "jsval \<Rightarrow> int \<Rightarrow> string"
  createMonthYearOnly :: "jsval \<Rightarrow> int \<Rightarrow> string"
  base64Encode :: "string \<Rightarrow> string"
  base64Decode :: "string \<Rightarrow> string option"
  encryptionKey :: string
  generateAssetId :: "int \<Rightarrow> string"

text \<open>\<open>+v\<close> (\<open>ToNumber\<close>), \<open>parseFloat(v)\<close> and \<open>v.toString()\<close> (for a value that has one).\<close>

fun toNumber :: "platform \<Rightarrow> jsval \<Rightarrow> jsnum" where
  "toNumber P JUndefined = NaN"
| "toNumber P JNull = Fin 0"
| "toNumber P (JBool b) = (if b then Fin 1 else Fin 0)"
| "toNumber P (JNum n) = n"
| "toNumber P (JStr s) = strToNumber P s"
| "toNumber P (JDate t) = Fin (real_of_int t)"

fun parseFloat :: "platform \<Rightarrow> jsval \<Rightarrow> jsnum" where
  "parseFloat P (JNum n) = n"
| "parseFloat P (JStr s) = strParseFloat P s"
| "parseFloat P (JDate t) = strParseFloat P (dateToString P t)"
| "parseFloat P v = NaN"

fun toString :: "platform \<Rightarrow> jsval \<Rightarrow> string" where
  "toString P JUndefined = ''undefined''"
| "toString P JNull = ''null''"
| "toString P (JBool b) = (if b then ''true'' else ''false'')"
| "toString P (JNum n) = numToString P n"
| "toString P (JStr s) = s"
| "toString P (JDate t) = dateToString P t"

section \<open>Sheets\<close>

text \<open>
  A sheet is its grid of cells, row by row; rows and columns are numbered from 1 and a
  cell outside the stored grid is empty. \<open>getValues()\<close> gives the empty string for an
  empty cell. Writing \<open>undefined\<close> or \<open>null\<close> leaves the cell empty.
\<close>

type_synonym sheet = "jsval list list"

definition cellAt :: "sheet \<Rightarrow> nat \<Rightarrow> nat \<Rightarrow> jsval" where
  "cellAt sh r c =
     (if 0 < r \<and> r \<le> length sh \<and> 0 < c \<and> c \<le> length (sh ! (r - 1))
      then sh ! (r - 1) ! (c - 1) else blank)"

definition padTo :: "nat \<Rightarrow> 'a \<Rightarrow> 'a list \<Rightarrow> 'a list" where
  "padTo n x xs = xs @ replicate (n - length xs) x"

fun toCell :: "jsval \<Rightarrow> jsval" where
  "toCell JUndefined = blank"
| "toCell JNull = blank"
| "toCell v = v"

definition setCell :: "sheet \<Rightarrow> nat \<Rightarrow> nat \<Rightarrow> jsval \<Rightarrow> sheet" where
  "setCell sh r c v =
     (if r = 0 \<or> c = 0 then sh
      else let rows = padTo r [] sh;
               row = padTo c blank (rows ! (r - 1))
           in rows[r - 1 := row[c - 1 := toCell v]])"

text \<open>\<open>sheet.getRange(r, c, 1, n).setValues([vs])\<close>: the cells of row \<open>r\<close> from column \<open>c\<close>.\<close>

fun setRowValues :: "sheet \<Rightarrow> nat \<Rightarrow> nat \<Rightarrow> jsval list \<Rightarrow> sheet" where
  "setRowValues sh r c [] = sh"
| "setRowValues sh r c (v # vs) = setRowValues (setCell sh r c v) r (Suc c) vs"

text \<open>\<open>sheet.getRange(r, c, nr, nc).getValues()\<close>.\<close>

definition getValues :: "sheet \<Rightarrow> nat \<Rightarrow> nat \<Rightarrow> nat \<Rightarrow> nat \<Rightarrow> jsval list list" where
  "getValues sh r c nr nc = map (\<lambda>i. map (\<lambda>j. cellAt sh i j) [c..<c + nc]) [r..<r + nr]"

text \<open>\<open>sheet.getLastRow()\<close>: the last row that has content in any column, 0 when none has.\<close>

definition rowEmpty :: "jsval list \<Rightarrow> bool" where
  "rowEmpty row = list_all (\<lambda>v. v = blank) row"

definition getLastRow :: "sheet \<Rightarrow> nat" where
  "getLastRow sh = length (dropWhile rowEmpty (rev sh))"

section \<open>Errors and the state of the host\<close>

text \<open>
  A thrown exception is a value: \<open>Inl\<close> of the error in the result of a function that can
  throw. \<open>errorToString\<close> is \<open>error.toString()\<close>.
\<close>

datatype exn = Error string | TypeError string | ReferenceError string | Exception string

fun errorToString :: "exn \<Rightarrow> string" where
  "errorToString (Error m) = ''Error: '' @ m"
| "errorToString (TypeError m) = ''TypeError: '' @ m"
| "errorToString (ReferenceError m) = ''ReferenceError: '' @ m"
| "errorToString (Exception m) = ''Exception: '' @ m"

text \<open>
  A category as \<open>getCategoriesWithTimestamp\<close> (\<open>zNetWorth.js\<close>, line 565) builds it, with the
  fields \<open>getZategoryFromCache\<close> reads; \<open>shortName\<close> is the field \<open>name\<close> of the source, which is
  also a field of the records the client sends.
\<close>

record category =
  fullName :: string
  shortName :: string
  zategoryFormula :: string

text \<open>
  The state the operations run in: the clock (\<open>new Date()\<close>, as its time value), the user
  property \<open>BUDGET_SHEET_URL\<close> (set or not), the sheets of the user's spreadsheet by name,
  what \<open>getCategoriesWithTimestamp()\<close> reports in this state (\<open>None\<close> for
  \<open>success: false\<close>), and the active sheet of the trial tracking spreadsheet
  (\<open>Inl\<close> of the error's text when \<open>SpreadsheetApp.openById\<close> throws).
\<close>

record world =
  clock :: int
  budgetSheetUrl :: bool
  sheets :: "string \<Rightarrow> sheet option"
  serverCategories :: "category list option"
  trialSheet :: "string + sheet"

section \<open>Facts about sheets\<close>

text \<open>A write changes the cells written and no other.\<close>

lemma cellAt_setCell:
  assumes "0 < r" "0 < c"
  shows "cellAt (setCell sh r c v) r' c' = (if r' = r \<and> c' = c then toCell v else cellAt sh r' c')"
proof -
  define rows where "rows = padTo r [] sh"
  define row where "row = padTo c blank (rows ! (r - 1))"
  have s: "setCell sh r c v = rows[r - 1 := row[c - 1 := toCell v]]"
    using assms by (simp add: setCell_def rows_def row_def Let_def)
  have lr: "r \<le> length rows" "length sh \<le> length rows"
    by (auto simp: rows_def padTo_def)
  have lc: "c \<le> length row" by (auto simp: row_def padTo_def)
  have rows_nth: "rows ! i = (if i < length sh then sh ! i else [])" if "i < length rows" for i
    using that by (auto simp: rows_def padTo_def nth_append)
  have row_nth: "row ! j = (if j < length (rows ! (r - 1)) then rows ! (r - 1) ! j else blank)" if "j < length row" for j
    using that by (auto simp: row_def padTo_def nth_append)
  have lrow: "length (rows ! (r - 1)) \<le> length row" by (auto simp: row_def padTo_def)
  show ?thesis
  proof (cases "r' = r")
    case True
    show ?thesis
    proof (cases "c' = c")
      case True
      with \<open>r' = r\<close> show ?thesis using assms lr lc by (simp add: s cellAt_def)
    next
      case False
      have a: "cellAt (setCell sh r c v) r c' = (if 0 < c' \<and> c' \<le> length row then row ! (c' - 1) else blank)"
        using assms lr lc False by (auto simp: s cellAt_def)
      have b: "(if 0 < c' \<and> c' \<le> length row then row ! (c' - 1) else blank) = cellAt sh r c'"
        using assms lr lrow rows_nth [of "r - 1"] row_nth [of "c' - 1"]
        by (auto simp: cellAt_def row_def padTo_def nth_append split: if_splits)
      show ?thesis using a b \<open>r' = r\<close> False by simp
    qed
  next
    case False
    then show ?thesis
      using assms lr rows_nth [of "r' - 1"]
      by (auto simp: s cellAt_def rows_def padTo_def nth_append split: if_splits)
  qed
qed

lemma cellAt_setRowValues:
  assumes "0 < r" "0 < c"
  shows "cellAt (setRowValues sh r c vs) r' c' =
         (if r' = r \<and> c \<le> c' \<and> c' < c + length vs then toCell (vs ! (c' - c)) else cellAt sh r' c')"
  using assms
proof (induction vs arbitrary: sh c)
  case Nil
  then show ?case by auto
next
  case (Cons v vs)
  have "0 < Suc c" by simp
  note IH = Cons.IH [OF Cons.prems(1) this, of "setCell sh r c v"]
  show ?case
    using Cons.prems
    by (auto simp: IH cellAt_setCell nth_Cons' Suc_diff_le)
qed

section \<open>The trial ledger (\<open>Code.js\<close>)\<close>






text \<open>The index of the first element a loop with \<open>break\<close> or \<open>return\<close> stops at.\<close>

fun findIndex :: "('a \<Rightarrow> bool) \<Rightarrow> 'a list \<Rightarrow> nat option" where
  "findIndex p [] = None"
| "findIndex p (x # xs) =
     (if p x then Some 0 else map_option Suc (findIndex p xs))"


record trial_result =
  status :: string
  daysLeft :: "int option"
  error :: "string option"






lemma findIndex_None_iff: "findIndex p xs = None \<longleftrightarrow> (\<forall>x\<in>set xs. \<not> p x)"
  by (induction xs) auto


lemma findIndex_Some_iff:
  "findIndex p xs = Some i \<longleftrightarrow> i < length xs \<and> p (xs ! i) \<and> (\<forall>j<i. \<not> p (xs ! j))"
proof (induction xs arbitrary: i)
  case Nil
  then show ?case by simp
next
  case (Cons x xs)
  show ?case
  proof (cases "p x")
    case True
    then show ?thesis by (cases i) auto
  next
    case False
    show ?thesis
    proof (cases i)
      case 0
      with False show ?thesis by auto
    next
      case (Suc k)
      with False Cons.IH [of k] show ?thesis
        by (auto simp: less_Suc_eq_0_disj)
    qed
  qed
qed









subsection \<open>Status derivation\<close>









subsection \<open>The obfuscation is reversible\<close>





subsection \<open>A worked ledger\<close>

text \<open>
  The host of the worked examples. Its conversions are tables over the values the
  examples use; its base64 codec is the identity, which like the real one decodes what
  it encoded.
\<close>

definition exampleHost :: platform where
  "exampleHost =
     \<lparr>strToNumber = (\<lambda>s. if s = ''12.50'' then Fin 12.5 else NaN),
      strParseFloat = (\<lambda>s. if s = ''12.50'' then Fin 12.5 else NaN),
      numToString = (\<lambda>n. if n = Fin 0 then ''0'' else if n = Fin 10 then ''10''
                         else if n = Fin 20 then ''20'' else if n = Fin 1200 then ''1200''
                         else if n = Fin (- 5) then ''-5'' else ''NaN''),
      dateToString = (\<lambda>t. ''Thu Jan 01 2026 00:00:00 GMT+0000''),
      dateParse = (\<lambda>s. None),
      toISOString = (\<lambda>t. if t = 1767225600000 then ''2026-01-01T00:00:00.000Z'' else ''2026-01-02T00:00:00.000Z''),
      createDateOnly = (\<lambda>v t. if v = JStr ''01/15/2026'' then ''15-Jan-2026'' else ''1-Jan-2026''),
      createMonthYearOnly = (\<lambda>v t. ''Jan 2026''),
      base64Encode = (\<lambda>s. s),
      base64Decode = Some,
      encryptionKey = ''k'',
      generateAssetId = (\<lambda>t. ''NW-1'')\<rparr>"








subsection \<open>First use\<close>



































section \<open>The record stores (\<open>zTransactions.js\<close>, \<open>zNetWorth.js\<close>, the income file)\<close>

subsection \<open>The spreadsheet and its timestamps\<close>

text \<open>
  \<open>getBudgetSheet(sheetName)\<close> (\<open>Code.js\<close>, line 135) throws when the URL is not stored and
  when the spreadsheet has no sheet of that name; it never returns \<open>null\<close>. Every caller
  below passes a name. Opening the spreadsheet is taken to succeed.
\<close>

definition getBudgetSheet :: "world \<Rightarrow> string \<Rightarrow> exn + sheet" where
  "getBudgetSheet w sheetName =
     (if \<not> budgetSheetUrl w then Inl (Error ''No spreadsheet ID found'')
      else case sheets w sheetName of
             None \<Rightarrow> Inl (Error (''Sheet '' @ [CHR 0x22] @ sheetName @ [CHR 0x22] @ '' not found''))
           | Some sheet \<Rightarrow> Inr sheet)"

text \<open>The table \<open>timestampCells\<close> of \<open>updateDataTimestamp\<close>: the row of column J.\<close>

definition timestampCells :: "string \<Rightarrow> nat option" where
  "timestampCells dataType =
     (if dataType = ''netWorth'' then Some 6
      else if dataType = ''recurring'' then Some 7
      else if dataType = ''settings'' then Some 8
      else if dataType = ''masterData'' then Some 9
      else if dataType = ''budget'' then Some 10
      else if dataType = ''categories'' then Some 11
      else if dataType = ''income'' then Some 12
      else None)"

text \<open>
  \<open>updateDataTimestamp(dataType)\<close> (\<open>Zztestingpurposes.js\<close>, line 59) writes the clock, as an
  ISO string, to the cell of the data type; it catches the exception of a missing
  \<open>Dontedit\<close> sheet and then writes nothing.
\<close>

definition updateDataTimestamp :: "platform \<Rightarrow> world \<Rightarrow> string \<Rightarrow> world" where
  "updateDataTimestamp P w dataType =
     (case getBudgetSheet w ''Dontedit'' of
        Inl x \<Rightarrow> w
      | Inr sheet \<Rightarrow>
          (case timestampCells dataType of
             None \<Rightarrow> w
           | Some r \<Rightarrow>
               w\<lparr>sheets := (sheets w)(''Dontedit'' \<mapsto>
                    setCell sheet r 10 (JStr (toISOString P (clock w))))\<rparr>))"


subsection \<open>Records, categories and object maps\<close>

text \<open>
  A record the client sends is a JavaScript object; a property it does not have reads
  as \<open>undefined\<close>. The fields are the properties the save operations read; \<open>entryId\<close>,
  \<open>assetType\<close> and \<open>entryNotes\<close> are the properties \<open>id\<close>, \<open>type\<close> and \<open>notes\<close>.
\<close>

record entry =
  transactionId :: jsval
  entryId :: jsval
  assetId :: jsval
  date :: jsval
  amount :: jsval
  category :: jsval
  name :: jsval
  description :: jsval
  label :: jsval
  entryNotes :: jsval
  account :: jsval
  source :: jsval
  asset :: jsval
  assetType :: jsval
  change :: jsval
  changeAmount :: jsval

text \<open>\<open>a || b\<close>.\<close>

definition jsOr :: "jsval \<Rightarrow> jsval \<Rightarrow> jsval" where
  "jsOr a b = (if truthy a then a else b)"

text \<open>\<open>s.trim()\<close>, on strings of bytes: the white space is that of ASCII.\<close>

definition isWhiteSpace :: "char \<Rightarrow> bool" where
  "isWhiteSpace c = (c \<in> set [CHR '' '', CHR 0x09, CHR 0x0A, CHR 0x0B, CHR 0x0C, CHR 0x0D])"

definition trim :: "string \<Rightarrow> string" where
  "trim s = rev (dropWhile isWhiteSpace (rev (dropWhile isWhiteSpace s)))"

text \<open>
  \<open>e.account && e.account.trim() !== '' ? e.account : 'Other'\<close>: a truthy account that is
  no string has no \<open>trim\<close>.
\<close>

definition accountOrOther :: "jsval \<Rightarrow> exn + jsval" where
  "accountOrOther a =
     (if \<not> truthy a then Inr (JStr ''Other'')
      else case a of
             JStr s \<Rightarrow> Inr (if trim s \<noteq> [] then a else JStr ''Other'')
           | _ \<Rightarrow> Inl (TypeError ''e.account.trim is not a function''))"

text \<open>
  \<open>getZategoryFromCache(categoryName)\<close> (\<open>zTransactions.js\<close>, line 454). The cache
  \<open>_serverCategoriesCache\<close> is empty at the start of every execution and is filled from
  \<open>getCategoriesWithTimestamp()\<close> at the first call, so every call reads what that function
  reports in this state.
\<close>

definition getZategoryFromCache :: "platform \<Rightarrow> world \<Rightarrow> jsval \<Rightarrow> exn + string" where
  "getZategoryFromCache P w categoryName =
     (case serverCategories w of
        None \<Rightarrow> Inl (Error ''Failed to load categories'')
      | Some cache \<Rightarrow>
          (case find (\<lambda>cat. JStr (fullName cat) = categoryName \<or> JStr (shortName cat) = categoryName)
                  cache of
             None \<Rightarrow> Inl (Error (''Category not found: '' @ toString P categoryName))
           | Some categoryObj \<Rightarrow> Inr (zategoryFormula categoryObj)))"

text \<open>
  The map \<open>{}\<close> from ids to rows is a JavaScript object: a key it does not hold reads as
  \<open>undefined\<close>, unless it names a member of \<open>Object.prototype\<close>, which then is what is read
  (a function or an object, truthy and no row number). Assigning a number to \<open>__proto__\<close>
  stores nothing.
\<close>

definition objectPrototypeKeys :: "string list" where
  "objectPrototypeKeys =
     [''constructor'', ''hasOwnProperty'', ''isPrototypeOf'', ''propertyIsEnumerable'',
      ''toLocaleString'', ''toString'', ''valueOf'', ''__proto__'', ''__defineGetter__'',
      ''__defineSetter__'', ''__lookupGetter__'', ''__lookupSetter__'']"

datatype property = Own nat | Inherited | Missing

definition objGet :: "(string \<Rightarrow> nat option) \<Rightarrow> string \<Rightarrow> property" where
  "objGet obj key =
     (case obj key of
        Some r \<Rightarrow> Own r
      | None \<Rightarrow> if key \<in> set objectPrototypeKeys then Inherited else Missing)"

definition objSet :: "(string \<Rightarrow> nat option) \<Rightarrow> string \<Rightarrow> nat \<Rightarrow> (string \<Rightarrow> nat option)" where
  "objSet obj key r = (if key = ''__proto__'' then obj else obj(key \<mapsto> r))"

text \<open>What the save and clear operations return.\<close>

datatype reply =
    Failure string
  | BatchSaved nat nat nat
  | NetWorthSaved nat nat nat "jsval list list" string
  | Cleared string jsval nat


fun updated :: "reply \<Rightarrow> nat" where
  "updated (BatchSaved u i r) = u"
| "updated (NetWorthSaved u i t es ts) = u"
| "updated r = 0"

fun inserted :: "reply \<Rightarrow> nat" where
  "inserted (BatchSaved u i r) = i"
| "inserted (NetWorthSaved u i t es ts) = i"
| "inserted r = 0"

subsection \<open>The batch upsert of expenses and of income\<close>

text \<open>
  The first pass over the id column (\<open>ids.forEach\<close>): a truthy id is entered in the map
  under its string, a later row replacing an earlier one; a row with no id is a hole, as
  long as there are fewer holes than records in the batch.
\<close>

fun scanIds :: "platform \<Rightarrow> nat \<Rightarrow> nat \<Rightarrow> jsval list \<Rightarrow>
    (string \<Rightarrow> nat option) \<times> nat list \<Rightarrow> (string \<Rightarrow> nat option) \<times> nat list" where
  "scanIds P n r [] (idMap, holes) = (idMap, holes)"
| "scanIds P n r (v # ids) (idMap, holes) =
     scanIds P n (Suc r) ids
       (if truthy v then (objSet idMap (toString P v) r, holes)
        else if length holes < n then (idMap, holes @ [r])
        else (idMap, holes))"

text \<open>
  The state of the second pass: the map, the holes not yet used, the last row, and the
  writes planned. The row of a planned update is \<open>None\<close> when the map gave a member of
  \<open>Object.prototype\<close> for it.
\<close>

record upsert =
  idMap :: "string \<Rightarrow> nat option"
  holes :: "nat list"
  lastRow :: nat
  toUpdate :: "(nat option \<times> jsval list) list"
  toInsert :: "(nat \<times> jsval list) list"

text \<open>
  The second pass (\<open>for (const e of expenses)\<close>), with the test that skips a record, the
  key of a record and its row of values as parameters. A row in the map is 5 or more, so
  \<open>if (row)\<close> tests that the key is in the map. An exception ends the pass.
\<close>

fun separate :: "(entry \<Rightarrow> bool) \<Rightarrow> (entry \<Rightarrow> string) \<Rightarrow> (entry \<Rightarrow> exn + jsval list) \<Rightarrow>
    entry list \<Rightarrow> upsert \<Rightarrow> exn + upsert" where
  "separate skip key vals [] st = Inr st"
| "separate skip key vals (e # es) st =
     (if skip e then separate skip key vals es st
      else case vals e of
        Inl x \<Rightarrow> Inl x
      | Inr values \<Rightarrow>
          (case objGet (idMap st) (key e) of
             Own row \<Rightarrow>
               separate skip key vals es (st\<lparr>toUpdate := toUpdate st @ [(Some row, values)]\<rparr>)
           | Inherited \<Rightarrow>
               separate skip key vals es (st\<lparr>toUpdate := toUpdate st @ [(None, values)]\<rparr>)
           | Missing \<Rightarrow>
               (case holes st of
                  target # rest \<Rightarrow>
                    separate skip key vals es
                      (st\<lparr>holes := rest, toInsert := toInsert st @ [(target, values)],
                          idMap := objSet (idMap st) (key e) target\<rparr>)
                | [] \<Rightarrow>
                    separate skip key vals es
                      (st\<lparr>lastRow := Suc (lastRow st),
                          toInsert := toInsert st @ [(Suc (lastRow st), values)],
                          idMap := objSet (idMap st) (key e) (Suc (lastRow st))\<rparr>))))"

text \<open>
  The writes, one \<open>getRange(row, c, 1, n).setValues([values])\<close> per planned row, in order.
  \<open>getRange\<close> throws for a row that is no number; what was written before stays written.
\<close>

fun writeRows :: "sheet \<Rightarrow> nat \<Rightarrow> (nat option \<times> jsval list) list \<Rightarrow> exn option \<times> sheet" where
  "writeRows sh c [] = (None, sh)"
| "writeRows sh c ((None, values) # rest) =
     (Some (Exception ''The parameters do not match the method signature for getRange.''), sh)"
| "writeRows sh c ((Some row, values) # rest) = writeRows (setRowValues sh row c values) c rest"

definition numbered :: "(nat \<times> jsval list) list \<Rightarrow> (nat option \<times> jsval list) list" where
  "numbered rows = map (\<lambda>(row, values). (Some row, values)) rows"

text \<open>\<open>saveBatchExpenses\<close> (\<open>zTransactions.js\<close>, line 165): columns D to K from row 5.\<close>

definition expenseSkipped :: "platform \<Rightarrow> entry \<Rightarrow> bool" where
  "expenseSkipped P e = (\<not> truthy (amount e) \<or> numLeZero (toNumber P (amount e)))"

definition expenseValues :: "platform \<Rightarrow> world \<Rightarrow> entry \<Rightarrow> exn + jsval list" where
  "expenseValues P w e =
     (case getZategoryFromCache P w (category e) of
        Inl x \<Rightarrow> Inl x
      | Inr zategory \<Rightarrow>
          (case accountOrOther (account e) of
             Inl x \<Rightarrow> Inl x
           | Inr acc \<Rightarrow>
               Inr [transactionId e,
                    JStr (createDateOnly P (date e) (clock w)),
                    JNum (toNumber P (amount e)),
                    JStr zategory,
                    jsOr (jsOr (name e) (description e)) (JStr []),
                    jsOr (label e) (JStr []),
                    jsOr (entryNotes e) (JStr []),
                    acc]))"

definition saveBatchExpenses :: "platform \<Rightarrow> world \<Rightarrow> entry list \<Rightarrow> (exn + reply) \<times> world" where
  "saveBatchExpenses P w expenses =
     (case getBudgetSheet w ''Expenses'' of
        Inl x \<Rightarrow> (Inl x, w)
      | Inr sh \<Rightarrow>
          let startRow = 5;
              lastRow = max (getLastRow sh) startRow;
              ids = concat (getValues sh startRow 4 (lastRow - startRow + 1) 1);
              scanned = scanIds P (length expenses) startRow ids (Map.empty, [])
          in case separate (expenseSkipped P) (\<lambda>e. toString P (transactionId e)) (expenseValues P w)
                    expenses
                    \<lparr>idMap = fst scanned, holes = snd scanned, lastRow = lastRow,
                     toUpdate = [], toInsert = []\<rparr> of
               Inl x \<Rightarrow> (Inl x, w)
             | Inr st \<Rightarrow>
                 (case writeRows sh 4 (toUpdate st) of
                    (Some x, sh') \<Rightarrow> (Inl x, w\<lparr>sheets := (sheets w)(''Expenses'' \<mapsto> sh')\<rparr>)
                  | (None, sh') \<Rightarrow>
                      let sh'' = snd (writeRows sh' 4 (numbered (toInsert st)));
                          w' = updateDataTimestamp P
                                 (w\<lparr>sheets := (sheets w)(''Expenses'' \<mapsto> sh'')\<rparr>) ''masterData''
                      in (Inr (BatchSaved (length (toUpdate st)) (length (toInsert st))
                                 (length expenses - length (toUpdate st) - length (toInsert st))),
                          w')))"



subsection \<open>The batch upsert of net worth entries\<close>



definition netWorthSkipped :: "platform \<Rightarrow> entry \<Rightarrow> bool" where
  "netWorthSkipped P e =
     (amount e = JUndefined \<or> amount e = JNull \<or> isNaN (parseFloat P (amount e)))"

text \<open>\<open>parseFloat(v) || 0\<close>.\<close>

definition floatOrZero :: "platform \<Rightarrow> jsval \<Rightarrow> jsnum" where
  "floatOrZero P v = (if truthy (JNum (parseFloat P v)) then parseFloat P v else Fin 0)"

definition netWorthValues :: "platform \<Rightarrow> world \<Rightarrow> entry \<Rightarrow> jsval list" where
  "netWorthValues P w e =
     [jsOr (jsOr (entryId e) (assetId e)) (JStr (generateAssetId P (clock w))),
      JStr (createMonthYearOnly P (date e) (clock w)),
      jsOr (asset e) (JStr []),
      jsOr (assetType e) (JStr []),
      jsOr (name e) (JStr []),
      JNum (floatOrZero P (amount e)),
      jsOr (change e) (JStr []),
      JNum (floatOrZero P (changeAmount e)),
      jsOr (entryNotes e) (JStr [])]"



subsection \<open>Clearing a row\<close>

text \<open>
  \<open>createTextFinder(text).matchEntireCell(true).matchCase(false).findNext()\<close> on a sheet: the
  first cell, row by row, whose text is the search text up to the case of letters (those
  of ASCII here). The text of a cell is taken to be its string conversion; an empty cell is
  never found.
\<close>

definition lowerChar :: "char \<Rightarrow> char" where
  "lowerChar c =
     (case map_of (zip ''ABCDEFGHIJKLMNOPQRSTUVWXYZ'' ''abcdefghijklmnopqrstuvwxyz'') c of
        Some l \<Rightarrow> l
      | None \<Rightarrow> c)"

definition matchesEntireCell :: "platform \<Rightarrow> string \<Rightarrow> jsval \<Rightarrow> bool" where
  "matchesEntireCell P text cell =
     (cell \<noteq> blank \<and> map lowerChar (toString P cell) = map lowerChar text)"

definition textFinderRow :: "platform \<Rightarrow> sheet \<Rightarrow> string \<Rightarrow> nat option" where
  "textFinderRow P sheet text =
     map_option Suc (findIndex (\<lambda>row. list_ex (matchesEntireCell P text) row) sheet)"

text \<open>\<open>sheet.getRange(r, c, 1, n).clearContent()\<close>.\<close>

definition clearContent :: "sheet \<Rightarrow> nat \<Rightarrow> nat \<Rightarrow> nat \<Rightarrow> sheet" where
  "clearContent sheet r c n = setRowValues sheet r c (replicate n blank)"

text \<open>
  \<open>clearTransactionRow\<close> (\<open>zTransactions.js\<close>, line 229) and \<open>clearIncomeRow\<close> (the income
  file, line 224), each in a \<open>try\<close>; \<open>tid\<close> is the parameter \<open>transactionId\<close>. \<open>undefined\<close> and \<open>null\<close> have no
  \<open>toString\<close>.
\<close>

definition idText :: "platform \<Rightarrow> jsval \<Rightarrow> exn + string" where
  "idText P v =
     (if v = JUndefined \<or> v = JNull
      then Inl (TypeError ''Cannot read properties of undefined (reading toString)'')
      else Inr (toString P v))"

definition clearTransactionRow :: "platform \<Rightarrow> world \<Rightarrow> jsval \<Rightarrow> (exn + reply) \<times> world" where
  "clearTransactionRow P w tid =
     (case getBudgetSheet w ''Expenses'' of
        Inl x \<Rightarrow> (Inr (Failure (errorToString x)), w)
      | Inr sheet \<Rightarrow>
          (case idText P tid of
             Inl x \<Rightarrow> (Inr (Failure (errorToString x)), w)
           | Inr text \<Rightarrow>
               (case textFinderRow P sheet text of
                  None \<Rightarrow> (Inr (Failure (''Transaction not found: '' @ text)), w)
                | Some rowIndex \<Rightarrow>
                    let sheet' = clearContent sheet rowIndex 4 8;
                        w' = updateDataTimestamp P
                               (w\<lparr>sheets := (sheets w)(''Expenses'' \<mapsto> sheet')\<rparr>) ''masterData''
                    in (Inr (Cleared ''Transaction row cleared successfully'' tid rowIndex),
                        w'))))"

definition clearIncomeRow :: "platform \<Rightarrow> world \<Rightarrow> jsval \<Rightarrow> (exn + reply) \<times> world" where
  "clearIncomeRow P w tid =
     (case getBudgetSheet w ''Income'' of
        Inl x \<Rightarrow> (Inr (Failure (errorToString x)), w)
      | Inr sheet \<Rightarrow>
          (case idText P tid of
             Inl x \<Rightarrow> (Inr (Failure (errorToString x)), w)
           | Inr text \<Rightarrow>
               (case textFinderRow P sheet text of
                  None \<Rightarrow> (Inr (Failure (''Income transaction not found: '' @ text)), w)
                | Some rowIndex \<Rightarrow>
                    let sheet' = clearContent sheet rowIndex 4 7;
                        w' = updateDataTimestamp P
                               (updateDataTimestamp P
                                  (w\<lparr>sheets := (sheets w)(''Income'' \<mapsto> sheet')\<rparr>) ''masterData'')
                               ''income''
                    in (Inr (Cleared ''Income transaction row cleared successfully'' tid
                               rowIndex),
                        w'))))"

text \<open>
  \<open>clearNetWorthRow\<close> (\<open>zNetWorth.js\<close>, line 457): first the rows whose column C is the
  identifier (\<open>===\<close>), then the rows with a truthy cell whose text contains it. After the
  row is cleared and the timestamp written, the reply is built from \<open>timestamp\<close>, a
  variable that is declared nowhere: the \<open>ReferenceError\<close> is caught and reported.
\<close>

text \<open>\<open>a === b\<close>, and \<open>s.includes(t)\<close> as \<open>includesText s t\<close>.\<close>

fun strictEq :: "jsval \<Rightarrow> jsval \<Rightarrow> bool" where
  "strictEq (JNum a) (JNum b) = (a = b \<and> a \<noteq> NaN)"
| "strictEq (JDate a) (JDate b) = False"
| "strictEq a b = (a = b)"

fun includesText :: "string \<Rightarrow> string \<Rightarrow> bool" where
  "includesText [] t = (t = [])"
| "includesText (c # s) t = (take (length t) (c # s) = t \<or> includesText s t)"

text \<open>The two searches (lines 467 to 502): the value of \<open>rowToDelete\<close> after them.\<close>

definition rowContainsId :: "platform \<Rightarrow> jsval \<Rightarrow> jsval list \<Rightarrow> bool" where
  "rowContainsId P identifier row =
     list_ex (\<lambda>cell. truthy cell \<and> includesText (toString P cell) (toString P identifier)) row"

definition rowToDelete :: "platform \<Rightarrow> sheet \<Rightarrow> jsval \<Rightarrow> nat option" where
  "rowToDelete P sheet identifier =
     (let startRow = 37;
          lastRow = max (getLastRow sheet) startRow;
          data = getValues sheet startRow 3 (lastRow - startRow + 1) 9
      in case findIndex (\<lambda>row. strictEq (row ! 0) identifier) data of
           Some i \<Rightarrow> Some (startRow + i)
         | None \<Rightarrow>
             (case findIndex (rowContainsId P identifier) data of
                Some i \<Rightarrow> Some (startRow + i)
              | None \<Rightarrow> None))"

definition clearNetWorthRow :: "platform \<Rightarrow> world \<Rightarrow> jsval \<Rightarrow> (exn + reply) \<times> world" where
  "clearNetWorthRow P w identifier =
     (case getBudgetSheet w ''Net Worth'' of
        Inl x \<Rightarrow> (Inr (Failure (errorToString x)), w)
      | Inr sheet \<Rightarrow>
          (case rowToDelete P sheet identifier of
             None \<Rightarrow>
               (Inr (Failure (''Net worth entry not found: '' @ toString P identifier)), w)
           | Some r \<Rightarrow>
               let sheet' = clearContent sheet r 3 9;
                   w' = updateDataTimestamp P
                          (w\<lparr>sheets := (sheets w)(''Net Worth'' \<mapsto> sheet')\<rparr>) ''netWorth''
               in (Inr (Failure (errorToString (ReferenceError ''timestamp is not defined''))),
                   w')))"

section \<open>Facts about the clear operations\<close>

lemma length_getValues: "length (getValues sh a c n k) = n"
  by (simp add: getValues_def)

lemma getValues_nth:
  "i < n \<Longrightarrow> getValues sh a c n k ! i = map (\<lambda>j. cellAt sh (a + i) j) [c..<c + k]"
  by (simp add: getValues_def del: upt_Suc)

lemma getValues_nth_nth:
  "i < n \<Longrightarrow> j < k \<Longrightarrow> getValues sh a c n k ! i ! j = cellAt sh (a + i) (c + j)"
  by (simp add: getValues_nth del: upt_Suc)

text \<open>The first row of a range that satisfies a test on its cells.\<close>

lemma findIndex_getValues:
  assumes "a \<le> r" "r < a + n"
    and "p (map (\<lambda>j. cellAt sh r j) [c..<c + k])"
    and "\<forall>r'. a \<le> r' \<and> r' < r \<longrightarrow> \<not> p (map (\<lambda>j. cellAt sh r' j) [c..<c + k])"
  shows "findIndex p (getValues sh a c n k) = Some (r - a)"
proof -
  have i: "r - a < n" using assms(1,2) by simp
  have row: "getValues sh a c n k ! (r - a) = map (\<lambda>j. cellAt sh r j) [c..<c + k]"
    using getValues_nth [OF i, of sh a c k] assms(1) by simp
  have before: "\<not> p (getValues sh a c n k ! j)" if "j < r - a" for j
  proof -
    have "j < n" using that i by simp
    then have "getValues sh a c n k ! j = map (\<lambda>x. cellAt sh (a + j) x) [c..<c + k]"
      by (rule getValues_nth)
    moreover have "a \<le> a + j \<and> a + j < r" using that by simp
    ultimately show ?thesis using assms(4) by simp
  qed
  show ?thesis
    unfolding findIndex_Some_iff length_getValues
    using i row assms(3) before by simp
qed

lemma findIndex_getValues_None:
  assumes "\<forall>r. a \<le> r \<and> r < a + n \<longrightarrow> \<not> p (map (\<lambda>j. cellAt sh r j) [c..<c + k])"
  shows "findIndex p (getValues sh a c n k) = None"
  unfolding findIndex_None_iff
proof
  fix row assume "row \<in> set (getValues sh a c n k)"
  then obtain i where i: "i < n" "row = getValues sh a c n k ! i"
    by (auto simp: in_set_conv_nth length_getValues)
  then have "row = map (\<lambda>j. cellAt sh (a + i) j) [c..<c + k]"
    by (simp add: getValues_nth del: upt_Suc)
  then show "\<not> p row" using assms i(1) by simp
qed

lemma findIndex_Some_less: "findIndex p xs = Some i \<Longrightarrow> i < length xs"
  by (simp add: findIndex_Some_iff)

lemma rowToDelete_ge: "rowToDelete P sheet identifier = Some r \<Longrightarrow> 37 \<le> r"
  by (auto simp: rowToDelete_def Let_def split: option.splits)

lemma first_cell_of_row: "0 < k \<Longrightarrow> map (\<lambda>j. cellAt sh r j) [c..<c + k] ! 0 = cellAt sh r c"
  by (simp del: upt_Suc)

lemma rowToDelete_exact:
  assumes "37 \<le> r" "r \<le> max (getLastRow sheet) 37"
    and "strictEq (cellAt sheet r 3) identifier"
    and "\<forall>r'. 37 \<le> r' \<and> r' < r \<longrightarrow> \<not> strictEq (cellAt sheet r' 3) identifier"
  shows "rowToDelete P sheet identifier = Some r"
proof -
  let ?n = "max (getLastRow sheet) 37 - 37 + 1"
  have r: "r < 37 + ?n" using assms(1,2) by simp
  have nine: "(0::nat) < 9" by simp
  have "findIndex (\<lambda>row. strictEq (row ! 0) identifier) (getValues sheet 37 3 ?n 9) = Some (r - 37)"
    by (rule findIndex_getValues [OF assms(1) r])
       (use assms(3,4) in \<open>simp_all only: first_cell_of_row [OF nine]\<close>)
  then show ?thesis
    using assms(1) by (simp add: rowToDelete_def Let_def)
qed

text \<open>A row contains the identifier when one of its cells C to K is truthy and has it in its text.\<close>

definition containsId :: "platform \<Rightarrow> sheet \<Rightarrow> jsval \<Rightarrow> nat \<Rightarrow> bool" where
  "containsId P sheet identifier r =
     rowContainsId P identifier (map (\<lambda>j. cellAt sheet r j) [3..<3 + 9])"

lemma rowContainsId_cells:
  "rowContainsId P identifier (map (\<lambda>j. cellAt sheet r j) [3..<3 + 9]) = containsId P sheet identifier r"
  by (simp only: containsId_def)

lemma rowToDelete_fallback:
  assumes "37 \<le> r" "r \<le> max (getLastRow sheet) 37"
    and "\<forall>r'. 37 \<le> r' \<and> r' \<le> max (getLastRow sheet) 37 \<longrightarrow> \<not> strictEq (cellAt sheet r' 3) identifier"
    and "containsId P sheet identifier r"
    and "\<forall>r'. 37 \<le> r' \<and> r' < r \<longrightarrow> \<not> containsId P sheet identifier r'"
  shows "rowToDelete P sheet identifier = Some r"
proof -
  let ?n = "max (getLastRow sheet) 37 - 37 + 1"
  have r: "r < 37 + ?n" using assms(1,2) by simp
  have nine: "(0::nat) < 9" by simp
  have none: "findIndex (\<lambda>row. strictEq (row ! 0) identifier) (getValues sheet 37 3 ?n 9) = None"
    by (rule findIndex_getValues_None) (use assms(3) in \<open>simp only: first_cell_of_row [OF nine]\<close>, auto)
  have "findIndex (rowContainsId P identifier) (getValues sheet 37 3 ?n 9) = Some (r - 37)"
    by (rule findIndex_getValues [OF assms(1) r])
       (use assms(4,5) in \<open>simp_all only: rowContainsId_cells\<close>)
  then show ?thesis
    using assms(1) none by (simp add: rowToDelete_def Let_def)
qed

lemma rowToDelete_None:
  assumes "\<forall>r'. 37 \<le> r' \<and> r' \<le> max (getLastRow sheet) 37 \<longrightarrow> \<not> strictEq (cellAt sheet r' 3) identifier"
    and "\<forall>r'. 37 \<le> r' \<and> r' \<le> max (getLastRow sheet) 37 \<longrightarrow> \<not> containsId P sheet identifier r'"
  shows "rowToDelete P sheet identifier = None"
proof -
  let ?n = "max (getLastRow sheet) 37 - 37 + 1"
  have nine: "(0::nat) < 9" by simp
  have none: "findIndex (\<lambda>row. strictEq (row ! 0) identifier) (getValues sheet 37 3 ?n 9) = None"
    by (rule findIndex_getValues_None) (use assms(1) in \<open>simp only: first_cell_of_row [OF nine]\<close>, auto)
  have none': "findIndex (rowContainsId P identifier) (getValues sheet 37 3 ?n 9) = None"
    by (rule findIndex_getValues_None) (use assms(2) in \<open>simp only: rowContainsId_cells\<close>, auto)
  show ?thesis
    using none none' by (simp add: rowToDelete_def Let_def)
qed

lemma cellAt_clearContent:
  assumes "0 < r" "0 < c"
  shows "cellAt (clearContent sheet r c n) r' c' =
         (if r' = r \<and> c \<le> c' \<and> c' < c + n then blank else cellAt sheet r' c')"
  unfolding clearContent_def cellAt_setRowValues [OF assms]
  by (auto simp: blank_def)

lemma updateDataTimestamp_writes:
  assumes "budgetSheetUrl w" "sheets w ''Dontedit'' = Some d" "timestampCells t = Some r"
  shows "updateDataTimestamp P w t =
         w\<lparr>sheets := (sheets w)(''Dontedit'' \<mapsto> setCell d r 10 (JStr (toISOString P (clock w))))\<rparr>"
  using assms by (simp add: updateDataTimestamp_def getBudgetSheet_def)

lemma updateDataTimestamp_other:
  "n \<noteq> ''Dontedit'' \<Longrightarrow> sheets (updateDataTimestamp P w t) n = sheets w n"
  by (simp add: updateDataTimestamp_def getBudgetSheet_def split: option.splits sum.splits)

lemma updateDataTimestamp_frame:
  "budgetSheetUrl (updateDataTimestamp P w t) = budgetSheetUrl w"
  "clock (updateDataTimestamp P w t) = clock w"
  by (simp_all add: updateDataTimestamp_def getBudgetSheet_def split: option.splits sum.splits)

lemma timestampCells_simps:
  "timestampCells ''netWorth'' = Some 6" "timestampCells ''masterData'' = Some 9"
  "timestampCells ''income'' = Some 12"
  by (simp_all add: timestampCells_def)

lemma getBudgetSheet_Inr: "getBudgetSheet w n = Inr sh \<longleftrightarrow> budgetSheetUrl w \<and> sheets w n = Some sh"
  by (auto simp: getBudgetSheet_def split: option.splits)

lemma clearNetWorthRow_found:
  assumes "getBudgetSheet w ''Net Worth'' = Inr sheet" "rowToDelete P sheet identifier = Some r"
  shows "clearNetWorthRow P w identifier =
         (Inr (Failure ''ReferenceError: timestamp is not defined''),
          updateDataTimestamp P (w\<lparr>sheets := (sheets w)(''Net Worth'' \<mapsto> clearContent sheet r 3 9)\<rparr>)
            ''netWorth'')"
  using assms by (simp add: clearNetWorthRow_def Let_def)

lemma clearNetWorthRow_not_found:
  assumes "getBudgetSheet w ''Net Worth'' = Inr sheet" "rowToDelete P sheet identifier = None"
  shows "clearNetWorthRow P w identifier =
         (Inr (Failure (''Net worth entry not found: '' @ toString P identifier)), w)"
  using assms by (simp add: clearNetWorthRow_def)

text \<open>
  Claim C10. \<open>clearNetWorthRow\<close> never returns a reply with \<open>success: true\<close>: whatever the
  state and the identifier, it returns a failure reply. When the search finds a row, the
  reply is the caught \<open>ReferenceError\<close>, although by then columns C to K of that row have
  been cleared, every other cell of the sheet being as before, and, where the \<open>Dontedit\<close>
  sheet exists, the clock has been written to the net worth timestamp in \<open>J6\<close>. A failure
  reply therefore does not tell that the store was left as it was.
\<close>

theorem clearNetWorthRow_never_succeeds:
  "(\<exists>msg. fst (clearNetWorthRow P w identifier) = Inr (Failure msg))
   \<and> (\<forall>sheet r. getBudgetSheet w ''Net Worth'' = Inr sheet \<and> rowToDelete P sheet identifier = Some r \<longrightarrow>
        fst (clearNetWorthRow P w identifier) = Inr (Failure ''ReferenceError: timestamp is not defined'')
        \<and> (\<exists>sheet'. sheets (snd (clearNetWorthRow P w identifier)) ''Net Worth'' = Some sheet'
              \<and> (\<forall>c. 3 \<le> c \<and> c \<le> 11 \<longrightarrow> cellAt sheet' r c = blank)
              \<and> (\<forall>r' c. \<not> (r' = r \<and> 3 \<le> c \<and> c \<le> 11) \<longrightarrow> cellAt sheet' r' c = cellAt sheet r' c))
        \<and> (\<forall>d. sheets w ''Dontedit'' = Some d \<longrightarrow>
              (\<exists>d'. sheets (snd (clearNetWorthRow P w identifier)) ''Dontedit'' = Some d'
                 \<and> cellAt d' 6 10 = JStr (toISOString P (clock w)))))"
proof (intro conjI allI impI)
  show "\<exists>msg. fst (clearNetWorthRow P w identifier) = Inr (Failure msg)"
    by (simp add: clearNetWorthRow_def Let_def split: sum.splits option.splits)
next
  fix sheet r
  assume a: "getBudgetSheet w ''Net Worth'' = Inr sheet \<and> rowToDelete P sheet identifier = Some r"
  then have gs: "getBudgetSheet w ''Net Worth'' = Inr sheet" and rd: "rowToDelete P sheet identifier = Some r"
    by simp_all
  note eq = clearNetWorthRow_found [OF gs rd]
  have r0: "0 < r" using rowToDelete_ge [OF rd] by simp
  have url: "budgetSheetUrl w" using gs by (simp add: getBudgetSheet_Inr)
  show "fst (clearNetWorthRow P w identifier) = Inr (Failure ''ReferenceError: timestamp is not defined'')"
    by (simp add: eq)
  have nw: "sheets (snd (clearNetWorthRow P w identifier)) ''Net Worth'' = Some (clearContent sheet r 3 9)"
    by (simp add: eq updateDataTimestamp_other)
  have cells: "cellAt (clearContent sheet r 3 9) r' c =
      (if r' = r \<and> 3 \<le> c \<and> c \<le> 11 then blank else cellAt sheet r' c)" for r' c
    using cellAt_clearContent [OF r0, of 3 sheet 9 r' c] by auto
  show "\<exists>sheet'. sheets (snd (clearNetWorthRow P w identifier)) ''Net Worth'' = Some sheet'
      \<and> (\<forall>c. 3 \<le> c \<and> c \<le> 11 \<longrightarrow> cellAt sheet' r c = blank)
      \<and> (\<forall>r' c. \<not> (r' = r \<and> 3 \<le> c \<and> c \<le> 11) \<longrightarrow> cellAt sheet' r' c = cellAt sheet r' c)"
    using nw cells by auto
  fix d assume d: "sheets w ''Dontedit'' = Some d"
  let ?w1 = "w\<lparr>sheets := (sheets w)(''Net Worth'' \<mapsto> clearContent sheet r 3 9)\<rparr>"
  have d1: "sheets ?w1 ''Dontedit'' = Some d" using d by simp
  have u1: "budgetSheetUrl ?w1" using url by simp
  have "sheets (snd (clearNetWorthRow P w identifier)) ''Dontedit'' =
        Some (setCell d 6 10 (JStr (toISOString P (clock w))))"
    unfolding eq snd_conv updateDataTimestamp_writes [OF u1 d1 timestampCells_simps(1)] by simp
  moreover have "cellAt (setCell d 6 10 (JStr (toISOString P (clock w)))) 6 10 = JStr (toISOString P (clock w))"
    by (subst cellAt_setCell) simp_all
  ultimately show "\<exists>d'. sheets (snd (clearNetWorthRow P w identifier)) ''Dontedit'' = Some d'
      \<and> cellAt d' 6 10 = JStr (toISOString P (clock w))"
    by simp
qed


subsection \<open>Worked tables\<close>

text \<open>
  A record with no property, a spreadsheet of the given sheets on 2026-01-01T00:00:00Z with
  the one category \<open>Food\<close>, a \<open>Dontedit\<close> sheet whose net worth and master timestamps
  are of the day before, and a net worth sheet with one entry in row 37.
\<close>

definition emptyEntry :: entry where
  "emptyEntry = \<lparr>transactionId = JUndefined, entryId = JUndefined, assetId = JUndefined,
     date = JUndefined, amount = JUndefined, category = JUndefined, name = JUndefined,
     description = JUndefined, label = JUndefined, entryNotes = JUndefined, account = JUndefined,
     source = JUndefined, asset = JUndefined, assetType = JUndefined, change = JUndefined,
     changeAmount = JUndefined\<rparr>"

definition bookWorld :: "(string \<Rightarrow> sheet option) \<Rightarrow> world" where
  "bookWorld book =
     \<lparr>clock = 1767225600000, budgetSheetUrl = True, sheets = book,
      serverCategories =
        Some [\<lparr>fullName = ''Food'', shortName = ''Food'', zategoryFormula = ''=zategory1''\<rparr>],
      trialSheet = Inl ''Exception: Unexpected error while getting the method or property openById''\<rparr>"

definition stamps :: sheet where
  "stamps = setCell (setCell [] 6 10 (JStr ''2025-12-31T00:00:00.000Z'')) 9 10
              (JStr ''2025-12-31T00:00:00.000Z'')"

definition netWorthSheet :: sheet where
  "netWorthSheet =
     replicate 36 [] @
     [[JStr [], JStr [], JStr ''NW-1'', JStr ''Jan 2026'', JStr ''Cash'', JStr ''Asset'',
       JStr ''Wallet'', JNum (Fin 1200), JStr [], JNum (Fin 0), JStr []]]"

definition netWorthWorld :: world where
  "netWorthWorld = bookWorld [''Net Worth'' \<mapsto> netWorthSheet, ''Dontedit'' \<mapsto> stamps]"

lemma netWorthSheet_cells:
  "cellAt netWorthSheet 37 3 = JStr ''NW-1''"
  "map (\<lambda>j. cellAt netWorthSheet 37 j) [3..<3 + 9] =
     [JStr ''NW-1'', JStr ''Jan 2026'', JStr ''Cash'', JStr ''Asset'', JStr ''Wallet'',
      JNum (Fin 1200), JStr [], JNum (Fin 0), JStr []]"
  by (simp_all add: cellAt_def netWorthSheet_def nth_append)

lemma getLastRow_netWorthSheet: "getLastRow netWorthSheet = 37"
  by (simp add: getLastRow_def netWorthSheet_def rowEmpty_def blank_def)

lemma netWorthWorld_sheet: "getBudgetSheet netWorthWorld ''Net Worth'' = Inr netWorthSheet"
  by (simp add: getBudgetSheet_def netWorthWorld_def bookWorld_def)

text \<open>Clearing the entry \<open>NW-1\<close> of the worked net worth sheet: the row is cleared, the reply is a failure.\<close>

theorem clearNetWorthRow_never_succeeds_witness:
  "cellAt netWorthSheet 37 3 = JStr ''NW-1''
   \<and> fst (clearNetWorthRow exampleHost netWorthWorld (JStr ''NW-1'')) =
       Inr (Failure ''ReferenceError: timestamp is not defined'')
   \<and> (\<exists>sheet'. sheets (snd (clearNetWorthRow exampleHost netWorthWorld (JStr ''NW-1''))) ''Net Worth'' =
         Some sheet' \<and> cellAt sheet' 37 3 = blank)"
proof -
  have rd: "rowToDelete exampleHost netWorthSheet (JStr ''NW-1'') = Some 37"
    by (rule rowToDelete_exact) (auto simp: netWorthSheet_cells)
  from clearNetWorthRow_never_succeeds [of exampleHost netWorthWorld "JStr ''NW-1''"]
  have "fst (clearNetWorthRow exampleHost netWorthWorld (JStr ''NW-1'')) =
          Inr (Failure ''ReferenceError: timestamp is not defined'')
        \<and> (\<exists>sheet'. sheets (snd (clearNetWorthRow exampleHost netWorthWorld (JStr ''NW-1''))) ''Net Worth'' =
              Some sheet' \<and> (\<forall>c. 3 \<le> c \<and> c \<le> 11 \<longrightarrow> cellAt sheet' 37 c = blank))"
    using netWorthWorld_sheet rd by blast
  then show ?thesis
    using netWorthSheet_cells(1) by auto
qed

subsection \<open>The fallback search\<close>

lemma textFinderRow_None:
  assumes "\<forall>r c. \<not> matchesEntireCell P text (cellAt sh r c)"
  shows "textFinderRow P sh text = None"
proof -
  have "\<not> list_ex (matchesEntireCell P text) row" if "row \<in> set sh" for row
  proof
    assume "list_ex (matchesEntireCell P text) row"
    then obtain cell where cell: "cell \<in> set row" "matchesEntireCell P text cell"
      by (auto simp: list_ex_iff)
    from that obtain i where i: "i < length sh" "row = sh ! i" by (auto simp: in_set_conv_nth)
    from cell(1) obtain j where j: "j < length row" "cell = row ! j" by (auto simp: in_set_conv_nth)
    have "cellAt sh (Suc i) (Suc j) = cell" using i j by (simp add: cellAt_def)
    then show False using assms cell(2) by metis
  qed
  then show ?thesis
    by (simp add: textFinderRow_def findIndex_None_iff)
qed

lemma clearTransactionRow_not_found:
  assumes "getBudgetSheet w ''Expenses'' = Inr sh" "idText P tid = Inr text"
    and "\<forall>r c. \<not> matchesEntireCell P text (cellAt sh r c)"
  shows "clearTransactionRow P w tid = (Inr (Failure (''Transaction not found: '' @ text)), w)"
  using assms(1,2) textFinderRow_None [OF assms(3)]
  by (simp add: clearTransactionRow_def)

lemma clearIncomeRow_not_found:
  assumes "getBudgetSheet w ''Income'' = Inr sh" "idText P tid = Inr text"
    and "\<forall>r c. \<not> matchesEntireCell P text (cellAt sh r c)"
  shows "clearIncomeRow P w tid = (Inr (Failure (''Income transaction not found: '' @ text)), w)"
  using assms(1,2) textFinderRow_None [OF assms(3)]
  by (simp add: clearIncomeRow_def)

lemma first_containing_row:
  assumes "37 \<le> r" "r \<le> L" "containsId P sheet ident r"
  shows "\<exists>r0. 37 \<le> r0 \<and> r0 \<le> L \<and> containsId P sheet ident r0
           \<and> (\<forall>r'. 37 \<le> r' \<and> r' < r0 \<longrightarrow> \<not> containsId P sheet ident r')"
proof -
  define Q where "Q x \<longleftrightarrow> 37 \<le> x \<and> containsId P sheet ident x" for x
  define r0 where "r0 = (LEAST x. Q x)"
  have Qr: "Q r" using assms by (simp add: Q_def)
  have l: "Q r0" unfolding r0_def using Qr by (rule LeastI)
  have le: "r0 \<le> r" unfolding r0_def using Qr by (rule Least_le)
  have nb: "\<not> Q r'" if "r' < r0" for r'
    using that unfolding r0_def by (rule not_less_Least)
  show ?thesis
  proof (intro exI [of _ r0] conjI allI impI)
    show "37 \<le> r0" using l unfolding Q_def by (rule conjunct1)
    show "r0 \<le> L" using le assms(2) by (rule order_trans)
    show "containsId P sheet ident r0" using l unfolding Q_def by (rule conjunct2)
    fix r' assume a: "37 \<le> r' \<and> r' < r0"
    then have "\<not> Q r'" using nb by blast
    then show "\<not> containsId P sheet ident r'" using a unfolding Q_def by blast
  qed
qed

text \<open>
  Claim C9, as amended. Claim C9 reads: the clear operation of each entity type (expenses,
  income, net worth) falls back to a substring scan over all columns when no row matches
  exactly, clears the first row that contains the identifier, and reports "not found" only
  when that scan finds nothing either. Only \<open>clearNetWorthRow\<close> has the second search;
  \<open>clearTransactionRow\<close> and \<open>clearIncomeRow\<close> ask the \<open>TextFinder\<close> for a whole cell
  (\<open>matchEntireCell(true)\<close>) and nothing else. What holds: when no row of the net worth
  range has the identifier in column C, \<open>clearNetWorthRow\<close> clears columns C to K of the
  first row of the range with a truthy cell whose text contains the identifier, and its
  reply is "not found", the state unchanged, exactly when the range has no such row; when
  no cell of the sheet is the search text as a whole, \<open>clearTransactionRow\<close> and
  \<open>clearIncomeRow\<close> reply "not found" and leave the state unchanged, also when a cell
  contains the text.
\<close>

theorem clear_fallback_only_for_net_worth:
  assumes "getBudgetSheet w ''Net Worth'' = Inr sheet"
    and "L = max (getLastRow sheet) 37"
    and "\<forall>r. 37 \<le> r \<and> r \<le> L \<longrightarrow> \<not> strictEq (cellAt sheet r 3) identifier"
  shows
    "(\<forall>r. 37 \<le> r \<and> r \<le> L \<and> containsId P sheet identifier r
          \<and> (\<forall>r'. 37 \<le> r' \<and> r' < r \<longrightarrow> \<not> containsId P sheet identifier r') \<longrightarrow>
        sheets (snd (clearNetWorthRow P w identifier)) ''Net Worth'' = Some (clearContent sheet r 3 9))
     \<and> ((clearNetWorthRow P w identifier =
           (Inr (Failure (''Net worth entry not found: '' @ toString P identifier)), w))
         = (\<forall>r. 37 \<le> r \<and> r \<le> L \<longrightarrow> \<not> containsId P sheet identifier r))
     \<and> (\<forall>sh text. getBudgetSheet w ''Expenses'' = Inr sh \<and> idText P tid = Inr text
           \<and> (\<forall>r c. \<not> matchesEntireCell P text (cellAt sh r c)) \<longrightarrow>
         clearTransactionRow P w tid = (Inr (Failure (''Transaction not found: '' @ text)), w))
     \<and> (\<forall>sh text. getBudgetSheet w ''Income'' = Inr sh \<and> idText P tid = Inr text
           \<and> (\<forall>r c. \<not> matchesEntireCell P text (cellAt sh r c)) \<longrightarrow>
         clearIncomeRow P w tid = (Inr (Failure (''Income transaction not found: '' @ text)), w))"
proof (intro conjI allI impI)
  fix r
  assume r: "37 \<le> r \<and> r \<le> L \<and> containsId P sheet identifier r
      \<and> (\<forall>r'. 37 \<le> r' \<and> r' < r \<longrightarrow> \<not> containsId P sheet identifier r')"
  have rd: "rowToDelete P sheet identifier = Some r"
    by (rule rowToDelete_fallback) (use r assms(2,3) in auto)
  show "sheets (snd (clearNetWorthRow P w identifier)) ''Net Worth'' = Some (clearContent sheet r 3 9)"
    by (simp add: clearNetWorthRow_found [OF assms(1) rd] updateDataTimestamp_other)
next
  show "(clearNetWorthRow P w identifier =
           (Inr (Failure (''Net worth entry not found: '' @ toString P identifier)), w))
         = (\<forall>r. 37 \<le> r \<and> r \<le> L \<longrightarrow> \<not> containsId P sheet identifier r)"
  proof
    assume nf: "clearNetWorthRow P w identifier =
           (Inr (Failure (''Net worth entry not found: '' @ toString P identifier)), w)"
    show "\<forall>r. 37 \<le> r \<and> r \<le> L \<longrightarrow> \<not> containsId P sheet identifier r"
    proof (intro allI impI notI)
      fix r assume "37 \<le> r \<and> r \<le> L" "containsId P sheet identifier r"
      then obtain r0 where r0: "37 \<le> r0" "r0 \<le> L" "containsId P sheet identifier r0"
          "\<forall>r'. 37 \<le> r' \<and> r' < r0 \<longrightarrow> \<not> containsId P sheet identifier r'"
        using first_containing_row [of r L P sheet "identifier"] by auto
      have rd: "rowToDelete P sheet identifier = Some r0"
        by (rule rowToDelete_fallback) (use r0 assms(2,3) in auto)
      have "fst (clearNetWorthRow P w identifier) = Inr (Failure ''ReferenceError: timestamp is not defined'')"
        by (simp add: clearNetWorthRow_found [OF assms(1) rd])
      then show False using nf by simp
    qed
  next
    assume "\<forall>r. 37 \<le> r \<and> r \<le> L \<longrightarrow> \<not> containsId P sheet identifier r"
    then have "rowToDelete P sheet identifier = None"
      using assms(2,3) by (intro rowToDelete_None) auto
    then show "clearNetWorthRow P w identifier =
           (Inr (Failure (''Net worth entry not found: '' @ toString P identifier)), w)"
      by (rule clearNetWorthRow_not_found [OF assms(1)])
  qed
next
  fix sh t
  assume "getBudgetSheet w ''Expenses'' = Inr sh \<and> idText P tid = Inr t
           \<and> (\<forall>r c. \<not> matchesEntireCell P t (cellAt sh r c))"
  then show "clearTransactionRow P w tid = (Inr (Failure (''Transaction not found: '' @ t)), w)"
    using clearTransactionRow_not_found by blast
next
  fix sh t
  assume "getBudgetSheet w ''Income'' = Inr sh \<and> idText P tid = Inr t
           \<and> (\<forall>r c. \<not> matchesEntireCell P t (cellAt sh r c))"
  then show "clearIncomeRow P w tid = (Inr (Failure (''Income transaction not found: '' @ t)), w)"
    using clearIncomeRow_not_found by blast
qed


text \<open>The worked expenses table: rows 5 to 11, with row 7 cleared.\<close>

lemma no_cell_matches:
  assumes "\<forall>row\<in>set sh. \<forall>cell\<in>set row. \<not> matchesEntireCell P t cell"
  shows "\<forall>r c. \<not> matchesEntireCell P t (cellAt sh r c)"
proof (intro allI)
  fix r c
  show "\<not> matchesEntireCell P t (cellAt sh r c)"
  proof (cases "0 < r \<and> r \<le> length sh \<and> 0 < c \<and> c \<le> length (sh ! (r - 1))")
    case True
    then have "sh ! (r - 1) \<in> set sh" "sh ! (r - 1) ! (c - 1) \<in> set (sh ! (r - 1))"
      by (auto intro!: nth_mem)
    then show ?thesis using assms True by (simp add: cellAt_def)
  next
    case False
    then have "cellAt sh r c = blank" by (auto simp: cellAt_def)
    then show ?thesis by (simp add: matchesEntireCell_def)
  qed
qed

definition expenseRow :: "string \<Rightarrow> string \<Rightarrow> jsval list" where
  "expenseRow i n =
     [JStr [], JStr [], JStr [], JStr i, JStr ''15-Jan-2026'', JNum (Fin 10), JStr ''=zategory1'',
      JStr n, JStr [], JStr [], JStr ''Other'']"

definition expensesSheet :: sheet where
  "expensesSheet =
     replicate 4 [] @
     [expenseRow ''EXP-1'' ''one'', expenseRow ''EXP-2'' ''two'', [], expenseRow ''EXP-4'' ''four'',
      expenseRow ''EXP-5'' ''five'', expenseRow ''EXP-6'' ''six'', expenseRow ''EXP-7'' ''seven'']"

definition expensesWorld :: world where
  "expensesWorld = bookWorld [''Expenses'' \<mapsto> expensesSheet, ''Dontedit'' \<mapsto> stamps]"

lemma expensesWorld_sheet: "getBudgetSheet expensesWorld ''Expenses'' = Inr expensesSheet"
  by (simp add: getBudgetSheet_def expensesWorld_def bookWorld_def)

lemma lowerChar_simps:
  "map lowerChar ''XP-4'' = ''xp-4''" "map lowerChar ''EXP-4'' = ''exp-4''"
  by (simp_all add: lowerChar_def)

lemma expenseRow_no_match:
  assumes "map lowerChar i \<noteq> ''xp-4''" "map lowerChar n \<noteq> ''xp-4''"
  shows "\<forall>cell\<in>set (expenseRow i n). \<not> matchesEntireCell exampleHost ''XP-4'' cell"
  using assms
  by (simp add: expenseRow_def matchesEntireCell_def lowerChar_simps exampleHost_def lowerChar_def)

text \<open>
  Claim C9 as stated fails for expenses: \<open>XP-4\<close> is part of the id in row 8 and of no other
  cell, no row is cleared, the reply is "not found".
\<close>

theorem clearTransactionRow_no_fallback:
  "cellAt expensesSheet 8 4 = JStr ''EXP-4'' \<and> includesText ''EXP-4'' ''XP-4''
   \<and> clearTransactionRow exampleHost expensesWorld (JStr ''XP-4'') =
       (Inr (Failure ''Transaction not found: XP-4''), expensesWorld)"
proof -
  have c: "cellAt expensesSheet 8 4 = JStr ''EXP-4''"
    by (simp add: cellAt_def expensesSheet_def expenseRow_def nth_append)
  have i: "includesText ''EXP-4'' ''XP-4''" by simp
  have "\<forall>row\<in>set expensesSheet. \<forall>cell\<in>set row. \<not> matchesEntireCell exampleHost ''XP-4'' cell"
    unfolding expensesSheet_def
    apply simp
    apply (intro conjI expenseRow_no_match)
    apply (simp_all add: lowerChar_def)
    done
  then have n: "\<forall>r c. \<not> matchesEntireCell exampleHost ''XP-4'' (cellAt expensesSheet r c)"
    by (rule no_cell_matches)
  have t: "idText exampleHost (JStr ''XP-4'') = Inr ''XP-4''" by (simp add: idText_def)
  show ?thesis
    using c i clearTransactionRow_not_found [OF expensesWorld_sheet t n] by simp
qed

text \<open>
  On the worked net worth sheet \<open>allet\<close> is no id and is part of the name in row 37: the row
  is cleared.
\<close>

theorem clear_fallback_only_for_net_worth_witness:
  "cellAt netWorthSheet 37 7 = JStr ''Wallet''
   \<and> sheets (snd (clearNetWorthRow exampleHost netWorthWorld (JStr ''allet''))) ''Net Worth'' =
       Some (clearContent netWorthSheet 37 3 9)
   \<and> cellAt (clearContent netWorthSheet 37 3 9) 37 7 = blank"
proof -
  have L: "37 = max (getLastRow netWorthSheet) 37" by (simp add: getLastRow_netWorthSheet)
  have noexact: "\<forall>r. 37 \<le> r \<and> r \<le> (37::nat) \<longrightarrow> \<not> strictEq (cellAt netWorthSheet r 3) (JStr ''allet'')"
    by (auto simp: netWorthSheet_cells(1) dest!: le_antisym)
  have c: "containsId exampleHost netWorthSheet (JStr ''allet'') 37"
    unfolding containsId_def netWorthSheet_cells(2)
    by (simp add: rowContainsId_def)
  have first: "\<forall>r'. 37 \<le> r' \<and> r' < (37::nat) \<longrightarrow> \<not> containsId exampleHost netWorthSheet (JStr ''allet'') r'"
    by auto
  have w7: "cellAt netWorthSheet 37 7 = JStr ''Wallet''"
    by (simp add: cellAt_def netWorthSheet_def nth_append)
  have b: "cellAt (clearContent netWorthSheet 37 3 9) 37 7 = blank"
    by (subst cellAt_clearContent) simp_all
  from clear_fallback_only_for_net_worth [OF netWorthWorld_sheet L noexact, of exampleHost JNull]
  have "sheets (snd (clearNetWorthRow exampleHost netWorthWorld (JStr ''allet''))) ''Net Worth'' =
       Some (clearContent netWorthSheet 37 3 9)"
    using c first by blast
  then show ?thesis using w7 b by simp
qed

section \<open>Exceptions and timestamps of the batch operations\<close>

lemma saveBatchExpenses_no_sheet:
  "getBudgetSheet w ''Expenses'' = Inl x \<Longrightarrow> saveBatchExpenses P w es = (Inl x, w)"
  by (simp add: saveBatchExpenses_def)

lemma saveBatchExpenses_first_throws:
  assumes "getBudgetSheet w ''Expenses'' = Inr sh" "\<not> expenseSkipped P e" "expenseValues P w e = Inl x"
  shows "saveBatchExpenses P w (e # es) = (Inl x, w)"
  using assms by (simp add: saveBatchExpenses_def Let_def)

definition foodExpense :: "string \<Rightarrow> real \<Rightarrow> string \<Rightarrow> entry" where
  "foodExpense i a n =
     emptyEntry\<lparr>transactionId := JStr i, date := JStr ''01/15/2026'', amount := JNum (Fin a),
                category := JStr ''Food'', name := JStr n\<rparr>"

lemma foodExpense_accepted: "0 < a \<Longrightarrow> \<not> expenseSkipped P (foodExpense i a n)"
  by (simp add: expenseSkipped_def foodExpense_def emptyEntry_def)

lemma foodExpense_values:
  "expenseValues exampleHost (bookWorld book) (foodExpense i a n) =
     Inr [JStr i, JStr ''15-Jan-2026'', JNum (Fin a), JStr ''=zategory1'', JStr n, JStr [], JStr [],
          JStr ''Other'']"
  by (simp add: expenseValues_def getZategoryFromCache_def bookWorld_def foodExpense_def emptyEntry_def
      accountOrOther_def jsOr_def exampleHost_def)

text \<open>
  Claim C7 reads: every public operation catches all failures at its own boundary and
  returns a structured result, in particular the batch operations when the sheet is
  missing or a category does not exist. \<open>saveBatchExpenses\<close> has no \<open>try\<close>: without the
  \<open>Expenses\<close> sheet the \<open>Error\<close> of \<open>getBudgetSheet\<close> leaves it, and with the category
  \<open>Rent\<close>, which the cache does not hold, the \<open>Error\<close> of \<open>getZategoryFromCache\<close> does. In
  both runs nothing is returned and the state is as before.
\<close>

theorem saveBatchExpenses_throws:
  "saveBatchExpenses exampleHost (bookWorld Map.empty) [foodExpense ''EXP-8'' 10 ''eight''] =
     (Inl (Error (''Sheet '' @ [CHR 0x22] @ ''Expenses'' @ [CHR 0x22] @ '' not found'')),
      bookWorld Map.empty)
   \<and> saveBatchExpenses exampleHost expensesWorld
        [(foodExpense ''EXP-8'' 10 ''eight'')\<lparr>category := JStr ''Rent''\<rparr>] =
     (Inl (Error ''Category not found: Rent''), expensesWorld)"
proof -
  have a: "getBudgetSheet (bookWorld Map.empty) ''Expenses'' =
      Inl (Error (''Sheet '' @ [CHR 0x22] @ ''Expenses'' @ [CHR 0x22] @ '' not found''))"
    by (simp add: getBudgetSheet_def bookWorld_def)
  have b: "\<not> expenseSkipped exampleHost ((foodExpense ''EXP-8'' 10 ''eight'')\<lparr>category := JStr ''Rent''\<rparr>)"
    by (simp add: expenseSkipped_def foodExpense_def emptyEntry_def)
  have c: "expenseValues exampleHost expensesWorld
       ((foodExpense ''EXP-8'' 10 ''eight'')\<lparr>category := JStr ''Rent''\<rparr>) =
       Inl (Error ''Category not found: Rent'')"
    by (simp add: expenseValues_def getZategoryFromCache_def expensesWorld_def bookWorld_def
        foodExpense_def emptyEntry_def)
  show ?thesis
    using saveBatchExpenses_no_sheet [OF a] saveBatchExpenses_first_throws [OF expensesWorld_sheet b c]
    by simp
qed

lemma cellAt_setCell_same: "0 < r \<Longrightarrow> 0 < c \<Longrightarrow> cellAt (setCell sh r c v) r c = toCell v"
  by (simp add: cellAt_setCell)








subsection \<open>One new entry on the worked net worth sheet\<close>



definition cashEntry :: "string \<Rightarrow> real \<Rightarrow> entry" where
  "cashEntry i a = emptyEntry\<lparr>entryId := JStr i, date := JStr ''01/15/2026'', asset := JStr ''Cash'',
     assetType := JStr ''Asset'', name := JStr ''Savings'', amount := JNum (Fin a)\<rparr>"




lemma cashEntry_kept: "\<not> netWorthSkipped P (cashEntry i a)"
  by (simp add: netWorthSkipped_def cashEntry_def emptyEntry_def)

lemma cashEntry_values:
  "netWorthValues P w (cashEntry ''NW-2'' a) ! 5 = JNum (if a = 0 then Fin 0 else Fin a)"
  by (simp add: netWorthValues_def cashEntry_def emptyEntry_def floatOrZero_def)







end
